theory Spec2Isabelle
  imports Complex_Main "HOL-Library.Word"
begin

section \<open>Numeric conventions\<close>

text \<open>
  The engine under verification is \<^verbatim>\<open>ElevenLabsSFXClient\<close> in
  \<^verbatim>\<open>backend/services/elevenlabs_sfx.py\<close>. Durations and audio samples are Python and
  numpy floats there; they are embedded as real numbers, so every product, quotient and
  comparison below is the exact one. Sample counts, sample rates and seeds are Python
  integers and are embedded as \<^typ>\<open>int\<close>. Every concrete input used further down is a
  dyadic rational on which the floating-point operations of the source are exact.
\<close>

text \<open>
  Exceptions are values. \<open>ProviderFailure\<close>, \<open>DecodeFailure\<close> and \<open>WriteFailure\<close> are
  what the HTTP call, the audio library and the sound-file writer raise; the others are
  Python's own. \<open>str_of\<close> is \<^verbatim>\<open>str(e)\<close>.
\<close>

datatype py_error =
    ValueError string
  | NameError string
  | ZeroDivisionError string
  | ProviderFailure string
  | DecodeFailure string
  | WriteFailure string

fun str_of :: "py_error \<Rightarrow> string" where
  "str_of (ValueError m) = m"
| "str_of (NameError m) = m"
| "str_of (ZeroDivisionError m) = m"
| "str_of (ProviderFailure m) = m"
| "str_of (DecodeFailure m) = m"
| "str_of (WriteFailure m) = m"

type_synonym samples = "real list"

text \<open>Python's \<^verbatim>\<open>int(x)\<close> on a float truncates towards zero.\<close>

definition py_int :: "real \<Rightarrow> int" where
  "py_int x = (if 0 \<le> x then \<lfloor>x\<rfloor> else \<lceil>x\<rceil>)"

text \<open>
  A slice bound of Python on a sequence of length \<open>n\<close>: a negative bound counts from the
  end, and every bound is clamped to \<open>0..n\<close>. Note that \<^verbatim>\<open>-0\<close> is \<^verbatim>\<open>0\<close>, so
  \<^verbatim>\<open>a[-0:]\<close> is the whole of \<^verbatim>\<open>a\<close> and \<^verbatim>\<open>a[:-0]\<close> is empty.
\<close>

definition py_bound :: "nat \<Rightarrow> int \<Rightarrow> nat" where
  "py_bound n k = (if k < 0 then nat (int n + k) else min (nat k) n)"

definition slice_from :: "int \<Rightarrow> 'a list \<Rightarrow> 'a list" where
  "slice_from k xs = drop (py_bound (length xs) k) xs"

definition slice_to :: "int \<Rightarrow> 'a list \<Rightarrow> 'a list" where
  "slice_to k xs = take (py_bound (length xs) k) xs"

definition slice :: "int \<Rightarrow> int \<Rightarrow> 'a list \<Rightarrow> 'a list" where
  "slice i j xs = drop (py_bound (length xs) i) (take (py_bound (length xs) j) xs)"

text \<open>
  \<^verbatim>\<open>np.linspace(start, stop, num)\<close> with the default \<^verbatim>\<open>endpoint=True\<close>: it raises on a
  negative \<^verbatim>\<open>num\<close>, returns \<^verbatim>\<open>[start]\<close> for \<^verbatim>\<open>num = 1\<close>, and otherwise \<^verbatim>\<open>num\<close> evenly
  spaced values from \<^verbatim>\<open>start\<close> to \<^verbatim>\<open>stop\<close>.
\<close>

definition linspace :: "real \<Rightarrow> real \<Rightarrow> int \<Rightarrow> py_error + samples" where
  "linspace start stop num =
     (if num < 0 then Inl (ValueError ''Number of samples must be non-negative.'')
      else if num = 1 then Inr [start]
      else Inr (map (\<lambda>i. start + real i * ((stop - start) / real_of_int (num - 1)))
                 [0..<nat num]))"

text \<open>
  An element-wise numpy operation on two one-dimensional arrays: equal lengths combine
  position by position, a length-one operand is broadcast, anything else raises.
\<close>

definition np_binop ::
  "(real \<Rightarrow> real \<Rightarrow> real) \<Rightarrow> samples \<Rightarrow> samples \<Rightarrow> py_error + samples" where
  "np_binop f xs ys =
     (if length xs = length ys then Inr (map2 f xs ys)
      else if length xs = 1 then Inr (map (f (hd xs)) ys)
      else if length ys = 1 then Inr (map (\<lambda>x. f x (hd ys)) xs)
      else Inl (ValueError ''operands could not be broadcast together''))"

definition np_mul :: "samples \<Rightarrow> samples \<Rightarrow> py_error + samples" where
  "np_mul = np_binop (\<lambda>x y. x * y)"

definition np_add :: "samples \<Rightarrow> samples \<Rightarrow> py_error + samples" where
  "np_add = np_binop (\<lambda>x y. x + y)"

section \<open>Crossfade, stitching and loop wrapping\<close>

text \<open>\<^verbatim>\<open>_create_crossfade\<close>.\<close>

definition create_crossfade ::
  "samples \<Rightarrow> samples \<Rightarrow> real \<Rightarrow> int \<Rightarrow> py_error + samples" where
  "create_crossfade audio1 audio2 crossfade_duration sample_rate =
     (let crossfade_samples = py_int (crossfade_duration * real_of_int sample_rate) in
      if int (length audio1) < crossfade_samples \<or> int (length audio2) < crossfade_samples
      then Inr (audio1 @ audio2)
      else
        (case linspace 1 0 crossfade_samples of Inl e \<Rightarrow> Inl e | Inr fade_out \<Rightarrow>
        (case linspace 0 1 crossfade_samples of Inl e \<Rightarrow> Inl e | Inr fade_in \<Rightarrow>
        (case np_mul (slice_from (- crossfade_samples) audio1) fade_out of
           Inl e \<Rightarrow> Inl e | Inr audio1_faded \<Rightarrow>
        (case np_mul (slice_to crossfade_samples audio2) fade_in of
           Inl e \<Rightarrow> Inl e | Inr audio2_faded \<Rightarrow>
        (case np_add audio1_faded audio2_faded of
           Inl e \<Rightarrow> Inl e | Inr crossfaded \<Rightarrow>
        Inr (slice_to (- crossfade_samples) audio1 @ crossfaded
               @ slice_from crossfade_samples audio2)))))))"

text \<open>
  \<^verbatim>\<open>_stitch_tiles\<close>. The loop runs over \<^verbatim>\<open>enumerate(tiles[1:], 1)\<close>; \<open>stitch_loop\<close> is
  that loop, carrying \<^verbatim>\<open>result\<close>.
\<close>

fun stitch_loop ::
  "samples list \<Rightarrow> real \<Rightarrow> int \<Rightarrow> bool \<Rightarrow> samples \<Rightarrow> (nat \<times> samples) list
     \<Rightarrow> py_error + samples" where
  "stitch_loop tiles crossfade_duration sample_rate loopable result [] = Inr result"
| "stitch_loop tiles crossfade_duration sample_rate loopable result ((i, tile) # rest) =
     (case (if loopable \<and> i = length tiles - 1
            then create_crossfade result (hd tiles) crossfade_duration sample_rate
            else create_crossfade result tile crossfade_duration sample_rate) of
        Inl e \<Rightarrow> Inl e
      | Inr result' \<Rightarrow>
          stitch_loop tiles crossfade_duration sample_rate loopable result' rest)"

definition stitch_tiles ::
  "samples list \<Rightarrow> real \<Rightarrow> int \<Rightarrow> bool \<Rightarrow> py_error + samples" where
  "stitch_tiles tiles crossfade_duration sample_rate loopable =
     (if tiles = [] then Inr []
      else if length tiles = 1 then Inr (hd tiles)
      else stitch_loop tiles crossfade_duration sample_rate loopable (hd tiles)
             (zip [1..<length tiles] (tl tiles)))"

text \<open>\<^verbatim>\<open>_make_loopable\<close>.\<close>

definition make_loopable :: "samples \<Rightarrow> real \<Rightarrow> int \<Rightarrow> py_error + samples" where
  "make_loopable audio crossfade_duration sample_rate =
     (let crossfade_samples = py_int (crossfade_duration * real_of_int sample_rate) in
      if int (length audio) < crossfade_samples * 2 then Inr audio
      else
        (case linspace 1 0 crossfade_samples of Inl e \<Rightarrow> Inl e | Inr fade_out \<Rightarrow>
        (case linspace 0 1 crossfade_samples of Inl e \<Rightarrow> Inl e | Inr fade_in \<Rightarrow>
        (case np_mul (slice_to crossfade_samples audio) fade_in of
           Inl e \<Rightarrow> Inl e | Inr audio_start \<Rightarrow>
        (case np_mul (slice_from (- crossfade_samples) audio) fade_out of
           Inl e \<Rightarrow> Inl e | Inr audio_end \<Rightarrow>
        (case np_add audio_start audio_end of
           Inl e \<Rightarrow> Inl e | Inr blended \<Rightarrow>
        Inr (blended @ slice crossfade_samples (- crossfade_samples) audio)))))))"

text \<open>
  The stitching stage of \<^verbatim>\<open>generate_sfx\<close> (the block under the comment
  \<^verbatim>\<open># Stitch tiles together\<close>): for a loopable request every tile is loop-wrapped first,
  then the tiles are stitched.
\<close>

fun make_tiles_loopable :: "samples list \<Rightarrow> real \<Rightarrow> int \<Rightarrow> py_error + samples list" where
  "make_tiles_loopable [] crossfade_duration sample_rate = Inr []"
| "make_tiles_loopable (tile # tiles) crossfade_duration sample_rate =
     (case make_loopable tile crossfade_duration sample_rate of
        Inl e \<Rightarrow> Inl e
      | Inr loopable_tile \<Rightarrow>
          (case make_tiles_loopable tiles crossfade_duration sample_rate of
             Inl e \<Rightarrow> Inl e
           | Inr loopable_tiles \<Rightarrow> Inr (loopable_tile # loopable_tiles)))"

definition stitch_stage ::
  "samples list \<Rightarrow> real \<Rightarrow> int \<Rightarrow> bool \<Rightarrow> py_error + samples" where
  "stitch_stage tiles crossfade_duration sample_rate loopable =
     (case (if loopable then make_tiles_loopable tiles crossfade_duration sample_rate
            else Inr tiles) of
        Inl e \<Rightarrow> Inl e
      | Inr tiles' \<Rightarrow> stitch_tiles tiles' crossfade_duration sample_rate loopable)"

section \<open>Requests, results and the surroundings of the engine\<close>

type_synonym bytes = "8 word list"

text \<open>\<^verbatim>\<open>SFXGenerationRequest\<close> and \<^verbatim>\<open>SFXGenerationResult\<close>.\<close>

record sfx_request =
  req_prompt :: string
  req_duration :: real
  req_seed :: "int option"
  req_loopable :: bool
  req_crossfade_duration :: real
  req_output_format :: string
  req_sample_rate :: int
  req_bit_depth :: int

record sfx_result =
  success :: bool
  audio_data :: "bytes option"
  file_path :: "string option"
  res_duration :: real
  res_sample_rate :: int
  res_bit_depth :: int
  res_format :: string
  generation_time :: real
  tiles_generated :: int
  seed_used :: "int option"
  error_message :: "string option"

text \<open>
  The cache directory holds, for a cache key, the audio file of that name and the JSON
  metadata file beside it (the same name with the suffix \<^verbatim>\<open>.json\<close>); both are looked up
  here by the cache key.
\<close>

record cache_metadata =
  meta_duration :: real
  meta_sample_rate :: int
  meta_bit_depth :: int
  meta_generation_time :: real
  meta_tiles_generated :: int
  meta_seed_used :: "int option"
  meta_cached_at :: real

record cache_store =
  audio_files :: "string \<rightharpoonup> bytes"
  metadata_files :: "string \<rightharpoonup> cache_metadata"

text \<open>
  The input and output the engine performs, in the order it happens: looking a key up in
  the cache directory, one HTTP request to the provider (prompt, duration and seed of the
  payload), writing the temporary sound file, storing a result in the cache directory.
\<close>

datatype io_event =
    CacheRead string
  | ProviderCall string real "int option"
  | TempFileWrite string
  | CacheWrite string

record engine_state =
  cache :: cache_store
  trace :: "io_event list"

fun provider_calls :: "io_event list \<Rightarrow> (string \<times> real \<times> int option) list" where
  "provider_calls [] = []"
| "provider_calls (ProviderCall p d s # evs) = (p, d, s) # provider_calls evs"
| "provider_calls (ev # evs) = provider_calls evs"

text \<open>
  What \<^verbatim>\<open>_save_audio\<close> hands to \<^verbatim>\<open>soundfile.write\<close>: integer samples with subtype
  \<^verbatim>\<open>PCM_16\<close> or \<^verbatim>\<open>PCM_24\<close>, or the float samples with subtype \<^verbatim>\<open>FLOAT\<close>.
\<close>

datatype sf_data = PCM_16 "int list" | PCM_24 "int list" | FLOAT samples

text \<open>
  Everything outside the repository is a parameter: the provider's answer to a payload,
  the audio library (\<^verbatim>\<open>librosa.load\<close>, \<^verbatim>\<open>librosa.resample\<close>, \<^verbatim>\<open>librosa.util.normalize\<close>),
  the bytes of the file that \<^verbatim>\<open>soundfile.write\<close> produces, the MD5 digest of the JSON
  dump of the seven hashed request fields, the readings of \<^verbatim>\<open>datetime.now()\<close>, the name
  of the temporary file, and whether the cache directory can be written.
\<close>

record environment =
  provider :: "string \<Rightarrow> real \<Rightarrow> int option \<Rightarrow> py_error + bytes"
  lib_load :: "bytes \<Rightarrow> py_error + samples \<times> int"
  lib_resample :: "samples \<Rightarrow> int \<Rightarrow> int \<Rightarrow> py_error + samples"
  lib_normalize :: "samples \<Rightarrow> py_error + samples"
  sf_write :: "sf_data \<Rightarrow> int \<Rightarrow> py_error + bytes"
  md5_json :: "string \<times> real \<times> int option \<times> bool \<times> real \<times> int \<times> int \<Rightarrow> string"
  now_start :: real
  now_end :: real
  now_cached :: real
  temp_file_name :: string
  cache_writable :: bool

section \<open>The client\<close>

definition max_duration_per_request :: real where
  "max_duration_per_request = 22"

definition min_duration :: real where
  "min_duration = 1"

definition max_duration :: real where
  "max_duration = 300"

definition target_sample_rate :: int where
  "target_sample_rate = 48000"

definition target_bit_depth :: int where
  "target_bit_depth = 24"

text \<open>\<^verbatim>\<open>_generate_cache_key\<close>.\<close>

definition generate_cache_key :: "environment \<Rightarrow> sfx_request \<Rightarrow> string" where
  "generate_cache_key env request =
     ''sfx_'' @ md5_json env (req_prompt request, req_duration request, req_seed request,
                              req_loopable request, req_crossfade_duration request,
                              req_sample_rate request, req_bit_depth request)
       @ ''.'' @ req_output_format request"

text \<open>
  \<^verbatim>\<open>_get_cached_result\<close> has the parameters \<^verbatim>\<open>self\<close> and \<^verbatim>\<open>cache_key\<close> only, and the
  module binds no global called \<^verbatim>\<open>request\<close>. The keyword argument
  \<^verbatim>\<open>format=request.output_format\<close> of the result it builds therefore raises
  \<^verbatim>\<open>NameError\<close>, inside the \<^verbatim>\<open>try\<close> block whose handler returns \<^verbatim>\<open>None\<close>.
\<close>

definition request_output_format_in_get_cached_result :: "py_error + string" where
  "request_output_format_in_get_cached_result =
     Inl (NameError ''name 'request' is not defined'')"

definition get_cached_result ::
  "environment \<Rightarrow> string \<Rightarrow> engine_state \<Rightarrow> sfx_result option \<times> engine_state" where
  "get_cached_result env cache_key st =
     (let st' = st\<lparr>trace := trace st @ [CacheRead cache_key]\<rparr> in
      case audio_files (cache st) cache_key of
        None \<Rightarrow> (None, st')
      | Some cached_audio \<Rightarrow>
          (let metadata = metadata_files (cache st) cache_key in
           case request_output_format_in_get_cached_result of
             Inl e \<Rightarrow> (None, st')
           | Inr fmt \<Rightarrow>
               (Some \<lparr>success = True,
                      audio_data = Some cached_audio,
                      file_path = Some cache_key,
                      res_duration = (case metadata of None \<Rightarrow> 0 | Some m \<Rightarrow> meta_duration m),
                      res_sample_rate =
                        (case metadata of None \<Rightarrow> target_sample_rate
                         | Some m \<Rightarrow> meta_sample_rate m),
                      res_bit_depth =
                        (case metadata of None \<Rightarrow> target_bit_depth
                         | Some m \<Rightarrow> meta_bit_depth m),
                      res_format = fmt,
                      generation_time =
                        (case metadata of None \<Rightarrow> 0 | Some m \<Rightarrow> meta_generation_time m),
                      tiles_generated =
                        (case metadata of None \<Rightarrow> 0 | Some m \<Rightarrow> meta_tiles_generated m),
                      seed_used =
                        (case metadata of None \<Rightarrow> None | Some m \<Rightarrow> meta_seed_used m),
                      error_message = None\<rparr>, st')))"

text \<open>
  \<^verbatim>\<open>_cache_result\<close>. Any exception is logged and swallowed. Opening the audio file
  creates it; writing \<^verbatim>\<open>None\<close> to it raises, which leaves it empty and skips the
  metadata.
\<close>

definition cache_result ::
  "environment \<Rightarrow> sfx_result \<Rightarrow> string \<Rightarrow> engine_state \<Rightarrow> engine_state" where
  "cache_result env result cache_key st =
     (if \<not> cache_writable env then st
      else
        case audio_data result of
          None \<Rightarrow>
            st\<lparr>cache := (cache st)\<lparr>audio_files := (audio_files (cache st))(cache_key \<mapsto> [])\<rparr>,
               trace := trace st @ [CacheWrite cache_key]\<rparr>
        | Some written \<Rightarrow>
            st\<lparr>cache := (cache st)
                 \<lparr>audio_files := (audio_files (cache st))(cache_key \<mapsto> written),
                  metadata_files := (metadata_files (cache st))(cache_key \<mapsto>
                    \<lparr>meta_duration = res_duration result,
                     meta_sample_rate = res_sample_rate result,
                     meta_bit_depth = res_bit_depth result,
                     meta_generation_time = generation_time result,
                     meta_tiles_generated = tiles_generated result,
                     meta_seed_used = seed_used result,
                     meta_cached_at = now_cached env\<rparr>)\<rparr>,
               trace := trace st @ [CacheWrite cache_key]\<rparr>)"

text \<open>
  \<^verbatim>\<open>_generate_sfx_tile\<close>: one request to the provider; the payload carries
  \<^verbatim>\<open>min(duration, max_duration_per_request)\<close>. A status other than 200, a timeout or a
  transport error is raised to the caller.
\<close>

definition generate_sfx_tile ::
  "environment \<Rightarrow> string \<Rightarrow> real \<Rightarrow> int option \<Rightarrow> engine_state
     \<Rightarrow> (py_error + bytes) \<times> engine_state" where
  "generate_sfx_tile env prompt tile_duration tile_seed st =
     (let payload_duration = min tile_duration max_duration_per_request in
      (provider env prompt payload_duration tile_seed,
       st\<lparr>trace := trace st @ [ProviderCall prompt payload_duration tile_seed]\<rparr>))"

text \<open>\<^verbatim>\<open>_process_audio_tile\<close>: load as mono, resample if the rate differs, normalize.\<close>

definition process_audio_tile :: "environment \<Rightarrow> bytes \<Rightarrow> int \<Rightarrow> py_error + samples" where
  "process_audio_tile env tile_data wanted_rate =
     (case lib_load env tile_data of
        Inl e \<Rightarrow> Inl e
      | Inr (audio, sr) \<Rightarrow>
          (case (if sr \<noteq> wanted_rate then lib_resample env audio sr wanted_rate
                 else Inr audio) of
             Inl e \<Rightarrow> Inl e
           | Inr audio' \<Rightarrow> lib_normalize env audio'))"

text \<open>
  \<^verbatim>\<open>_save_audio\<close> followed by reading the temporary file back. \<^verbatim>\<open>astype\<close> to an
  integer type truncates towards zero; the samples are peak-normalized, so the scaled
  values are in the range of the integer type.
\<close>

definition save_audio :: "environment \<Rightarrow> samples \<Rightarrow> int \<Rightarrow> int \<Rightarrow> py_error + bytes" where
  "save_audio env audio rate depth =
     (if depth = 16 then sf_write env (PCM_16 (map (\<lambda>x. py_int (x * 32767)) audio)) rate
      else if depth = 24 then sf_write env (PCM_24 (map (\<lambda>x. py_int (x * 8388607)) audio)) rate
      else sf_write env (FLOAT audio) rate)"

text \<open>
  The tile loop of \<^verbatim>\<open>generate_sfx\<close>, over \<^verbatim>\<open>range(tiles_needed)\<close>, carrying the list
  \<^verbatim>\<open>tiles\<close>; \<open>tile_seed\<close> is the expression assigned to \<^verbatim>\<open>tile_seed\<close> in its body.
  An exception of the provider call or of the tile processing leaves the loop.
\<close>

definition tile_seed :: "int option \<Rightarrow> nat \<Rightarrow> int option" where
  "tile_seed request_seed i =
     (case request_seed of None \<Rightarrow> None | Some s \<Rightarrow> Some (s + int i))"

fun generate_tiles ::
  "environment \<Rightarrow> sfx_request \<Rightarrow> real \<Rightarrow> samples list \<Rightarrow> nat list \<Rightarrow> engine_state
     \<Rightarrow> (py_error + samples list) \<times> engine_state" where
  "generate_tiles env request tile_duration tiles [] st = (Inr tiles, st)"
| "generate_tiles env request tile_duration tiles (i # is) st =
     (case generate_sfx_tile env (req_prompt request) tile_duration
             (tile_seed (req_seed request) i) st of
        (Inl e, st1) \<Rightarrow> (Inl e, st1)
      | (Inr tile_data, st1) \<Rightarrow>
          (case process_audio_tile env tile_data (req_sample_rate request) of
             Inl e \<Rightarrow> (Inl e, st1)
           | Inr tile_audio \<Rightarrow>
               generate_tiles env request tile_duration (tiles @ [tile_audio]) is st1))"

text \<open>The block under \<^verbatim>\<open># Ensure exact duration\<close>.\<close>

definition ensure_exact_duration :: "samples \<Rightarrow> int \<Rightarrow> samples" where
  "ensure_exact_duration final_audio target_samples =
     (if int (length final_audio) > target_samples then slice_to target_samples final_audio
      else if int (length final_audio) < target_samples
      then final_audio @ replicate (nat (target_samples - int (length final_audio))) 0
      else final_audio)"

definition failure_result :: "string \<Rightarrow> sfx_result" where
  "failure_result msg =
     \<lparr>success = False, audio_data = None, file_path = None, res_duration = 0,
      res_sample_rate = 48000, res_bit_depth = 24, res_format = ''wav'',
      generation_time = 0, tiles_generated = 0, seed_used = None,
      error_message = Some msg\<rparr>"

text \<open>
  The \<^verbatim>\<open>try\<close> block of \<^verbatim>\<open>generate_sfx\<close>; its handler turns every exception into a
  failure result carrying \<^verbatim>\<open>str(e)\<close>.
\<close>

definition synthesize ::
  "environment \<Rightarrow> sfx_request \<Rightarrow> bool \<Rightarrow> string \<Rightarrow> engine_state
     \<Rightarrow> sfx_result \<times> engine_state" where
  "synthesize env request use_cache cache_key st =
     (let tiles_needed =
            py_int (real_of_int \<lceil>req_duration request / max_duration_per_request\<rceil>)
      in
      if tiles_needed = 0 then (failure_result ''float division by zero'', st)
      else
        let tile_duration = req_duration request / real_of_int tiles_needed in
        case generate_tiles env request tile_duration [] [0..<nat tiles_needed] st of
          (Inl e, st1) \<Rightarrow> (failure_result (str_of e), st1)
        | (Inr tiles, st1) \<Rightarrow>
            (case stitch_stage tiles (req_crossfade_duration request)
                    (req_sample_rate request) (req_loopable request) of
               Inl e \<Rightarrow> (failure_result (str_of e), st1)
             | Inr stitched \<Rightarrow>
                 (let target_samples =
                        py_int (req_duration request * real_of_int (req_sample_rate request));
                      final_audio = ensure_exact_duration stitched target_samples;
                      st2 = st1\<lparr>trace := trace st1 @ [TempFileWrite (temp_file_name env)]\<rparr>
                  in
                  case save_audio env final_audio (req_sample_rate request)
                         (req_bit_depth request) of
                    Inl e \<Rightarrow> (failure_result (str_of e), st2)
                  | Inr written \<Rightarrow>
                      (let result =
                             \<lparr>success = True,
                              audio_data = Some written,
                              file_path = Some (temp_file_name env),
                              res_duration = req_duration request,
                              res_sample_rate = req_sample_rate request,
                              res_bit_depth = req_bit_depth request,
                              res_format = req_output_format request,
                              generation_time = now_end env - now_start env,
                              tiles_generated = tiles_needed,
                              seed_used = req_seed request,
                              error_message = None\<rparr>
                       in (result,
                           if use_cache then cache_result env result cache_key st2
                           else st2)))))"

text \<open>\<^verbatim>\<open>generate_sfx\<close>.\<close>

definition generate_sfx ::
  "environment \<Rightarrow> sfx_request \<Rightarrow> bool \<Rightarrow> engine_state \<Rightarrow> sfx_result \<times> engine_state" where
  "generate_sfx env request use_cache st =
     (if req_duration request < min_duration
      then (failure_result ''Duration must be at least 1.0 seconds'', st)
      else if req_duration request > max_duration
      then (failure_result ''Duration cannot exceed 300.0 seconds'', st)
      else
        let cache_key = generate_cache_key env request in
        case (if use_cache then get_cached_result env cache_key st else (None, st)) of
          (Some cached_result, st1) \<Rightarrow> (cached_result, st1)
        | (None, st1) \<Rightarrow> synthesize env request use_cache cache_key st1)"

section \<open>The design document's reading of the pipeline\<close>




section \<open>Auxiliary notions for stating properties\<close>

text \<open>
  The outcome of tile \<open>i\<close> alone: the provider's answer to the payload of that tile,
  passed through \<open>process_audio_tile\<close>.
\<close>

definition tile_outcome :: "environment \<Rightarrow> sfx_request \<Rightarrow> real \<Rightarrow> nat \<Rightarrow> py_error + samples" where
  "tile_outcome env request tile_duration i =
     (case provider env (req_prompt request) (min tile_duration max_duration_per_request)
             (tile_seed (req_seed request) i) of
        Inl e \<Rightarrow> Inl e
      | Inr tile_data \<Rightarrow> process_audio_tile env tile_data (req_sample_rate request))"

text \<open>The state in which the \<^verbatim>\<open>try\<close> block starts: after the cache lookup, if any.\<close>

definition after_lookup :: "environment \<Rightarrow> sfx_request \<Rightarrow> bool \<Rightarrow> engine_state \<Rightarrow> engine_state" where
  "after_lookup env r uc st =
     (if uc then st\<lparr>trace := trace st @ [CacheRead (generate_cache_key env r)]\<rparr> else st)"

section \<open>Concrete surroundings and requests\<close>

text \<open>
  A provider stub that answers every payload with the same four bytes, an audio library
  stub that decodes them to four samples at 48 kHz, and a sound-file stub that writes one
  zero byte per sample it is handed, so that the length of the written bytes is the number
  of samples of the final waveform.
\<close>

fun sf_length :: "sf_data \<Rightarrow> nat" where
  "sf_length (PCM_16 xs) = length xs"
| "sf_length (PCM_24 xs) = length xs"
| "sf_length (FLOAT xs) = length xs"

definition stub_env :: environment where
  "stub_env =
     \<lparr>provider = (\<lambda>p d s. Inr [82, 73, 70, 70]),
      lib_load = (\<lambda>b. Inr ([1, - 1 / 2, 1 / 4, 0], 48000)),
      lib_resample = (\<lambda>a sr wanted. Inr a),
      lib_normalize = (\<lambda>a. Inr a),
      sf_write = (\<lambda>d rate. Inr (replicate (sf_length d) 0)),
      md5_json = (\<lambda>fields. ''0cc175b9c0f1b6a8''),
      now_start = 0, now_end = 3, now_cached = 3,
      temp_file_name = ''/tmp/tmp0.wav'',
      cache_writable = True\<rparr>"

definition later_env :: environment where
  "later_env =
     stub_env\<lparr>now_start := 100, now_end := 107, now_cached := 107,
              temp_file_name := ''/tmp/tmp1.wav'', cache_writable := False\<rparr>"

definition failing_env :: environment where
  "failing_env =
     stub_env\<lparr>provider :=
       (\<lambda>p d s. if s = Some 43 then Inl (ProviderFailure ''ElevenLabs API error 500: busy'')
                  else Inr [82, 73, 70, 70])\<rparr>"

definition rain_request :: sfx_request where
  "rain_request =
     \<lparr>req_prompt = ''rain on leaves'', req_duration = 10, req_seed = Some 42,
      req_loopable = False, req_crossfade_duration = 1 / 2, req_output_format = ''wav'',
      req_sample_rate = 48000, req_bit_depth = 24\<rparr>"

definition empty_state :: engine_state where
  "empty_state = \<lparr>cache = \<lparr>audio_files = Map.empty, metadata_files = Map.empty\<rparr>, trace = []\<rparr>"

definition storm_request :: sfx_request where
  "storm_request = rain_request\<lparr>req_prompt := ''distant thunder'', req_duration := 30\<rparr>"

definition wind_request :: sfx_request where
  "wind_request = rain_request\<lparr>req_prompt := ''wind in pines'', req_duration := 50\<rparr>"

definition empty_prompt_request :: sfx_request where
  "empty_prompt_request = rain_request\<lparr>req_prompt := []\<rparr>"

definition fractional_request :: sfx_request where
  "fractional_request = rain_request\<lparr>req_duration := 35 / 32, req_sample_rate := 8\<rparr>"

section \<open>Basic facts\<close>

lemmas engine_defs =
  generate_sfx_def synthesize_def generate_cache_key_def get_cached_result_def
  cache_result_def generate_sfx_tile_def process_audio_tile_def save_audio_def
  ensure_exact_duration_def failure_result_def stitch_stage_def stitch_tiles_def
  min_duration_def max_duration_def max_duration_per_request_def py_int_def
  request_output_format_in_get_cached_result_def tile_seed_def tile_outcome_def Let_def

lemmas audio_defs =
  create_crossfade_def make_loopable_def linspace_def np_mul_def np_add_def np_binop_def
  slice_from_def slice_to_def slice_def py_bound_def

lemmas stub_defs =
  stub_env_def later_env_def failing_env_def rain_request_def storm_request_def
  wind_request_def empty_prompt_request_def fractional_request_def empty_state_def

lemma py_int_of_int: "py_int (real_of_int k) = k"
  by (simp add: py_int_def)








lemma get_cached_result_miss:
  "get_cached_result env k st = (None, st\<lparr>trace := trace st @ [CacheRead k]\<rparr>)"
  by (simp add: get_cached_result_def request_output_format_in_get_cached_result_def Let_def
      split: option.splits)

lemma provider_calls_append:
  "provider_calls (xs @ ys) = provider_calls xs @ provider_calls ys"
  by (induction xs rule: provider_calls.induct) simp_all


lemma generate_tiles_step:
  "generate_tiles env r td acc (i # is) st =
     (case tile_outcome env r td i of
        Inl e \<Rightarrow> (Inl e, st\<lparr>trace := trace st @ [ProviderCall (req_prompt r)
                      (min td max_duration_per_request) (tile_seed (req_seed r) i)]\<rparr>)
      | Inr a \<Rightarrow> generate_tiles env r td (acc @ [a]) is
                  (st\<lparr>trace := trace st @ [ProviderCall (req_prompt r)
                      (min td max_duration_per_request) (tile_seed (req_seed r) i)]\<rparr>))"
  by (simp add: generate_sfx_tile_def tile_outcome_def Let_def split: sum.splits)

lemma generate_tiles_success:
  "generate_tiles env r td acc is st = (Inr tiles, st') \<Longrightarrow>
     provider_calls (trace st') = provider_calls (trace st) @
       map (\<lambda>i. (req_prompt r, min td max_duration_per_request, tile_seed (req_seed r) i)) is"
proof (induction "is" arbitrary: acc st)
  case Nil
  then show ?case by simp
next
  case (Cons i "is")
  from Cons.prems obtain a where
    "generate_tiles env r td (acc @ [a]) is
       (st\<lparr>trace := trace st @ [ProviderCall (req_prompt r)
             (min td max_duration_per_request) (tile_seed (req_seed r) i)]\<rparr>) = (Inr tiles, st')"
    by (auto simp del: generate_tiles.simps simp add: generate_tiles_step split: sum.splits)
  from Cons.IH[OF this] show ?case
    by (simp add: provider_calls_append)
qed


lemma generate_tiles_same_audio:
  assumes "provider e1 = provider e2" "lib_load e1 = lib_load e2"
    "lib_resample e1 = lib_resample e2" "lib_normalize e1 = lib_normalize e2"
  shows "fst (generate_tiles e1 r td acc is s1) = fst (generate_tiles e2 r td acc is s2)"
proof (induction "is" arbitrary: acc s1 s2)
  case Nil
  show ?case by simp
next
  case (Cons i "is")
  have "\<And>d. process_audio_tile e1 d (req_sample_rate r) = process_audio_tile e2 d (req_sample_rate r)"
    using assms by (simp add: process_audio_tile_def split: sum.splits prod.splits)
  then have "tile_outcome e1 r td i = tile_outcome e2 r td i"
    using assms by (simp add: tile_outcome_def split: sum.splits)
  then show ?case using Cons.IH
    by (simp del: generate_tiles.simps add: generate_tiles_step split: sum.splits)
qed

lemma tiles_needed_pos: "1 \<le> d \<Longrightarrow> 1 \<le> \<lceil>d / 22 :: real\<rceil>"
  by (simp add: ceiling_le_iff le_ceiling_iff) 

lemma tile_duration_le: 
  assumes "1 \<le> (d::real)" shows "d / real_of_int \<lceil>d / 22\<rceil> \<le> 22"
proof -
  have p: "0 < real_of_int \<lceil>d / 22\<rceil>" using tiles_needed_pos[OF assms] by simp
  have "d / 22 \<le> real_of_int \<lceil>d / 22\<rceil>" by (rule le_of_int_ceiling)
  then have "d \<le> 22 * real_of_int \<lceil>d / 22\<rceil>" by linarith
  then show ?thesis using p by (simp add: pos_divide_le_eq)
qed

lemma generate_tiles_prefix:
  "generate_tiles env r td acc is st = (res, st') \<Longrightarrow>
     \<exists>k\<le>length is.
       provider_calls (trace st') = provider_calls (trace st) @
         map (\<lambda>i. (req_prompt r, min td max_duration_per_request, tile_seed (req_seed r) i))
           (take k is) \<and>
       ((\<exists>tiles. res = Inr tiles) \<longrightarrow> k = length is)"
proof (induction "is" arbitrary: acc st)
  case Nil
  then show ?case by simp
next
  case (Cons i "is")
  let ?st1 = "st\<lparr>trace := trace st @ [ProviderCall (req_prompt r)
                 (min td max_duration_per_request) (tile_seed (req_seed r) i)]\<rparr>"
  show ?case
  proof (cases "tile_outcome env r td i")
    case (Inl e)
    with Cons.prems have "res = Inl e" "st' = ?st1"
      by (simp_all del: generate_tiles.simps add: generate_tiles_step)
    then show ?thesis
      by (intro exI[of _ "Suc 0"]) (simp add: provider_calls_append)
  next
    case (Inr a)
    with Cons.prems have "generate_tiles env r td (acc @ [a]) is ?st1 = (res, st')"
      by (simp del: generate_tiles.simps add: generate_tiles_step)
    from Cons.IH[OF this] obtain k where k: "k \<le> length is"
      "provider_calls (trace st') = provider_calls (trace ?st1) @
         map (\<lambda>i. (req_prompt r, min td max_duration_per_request, tile_seed (req_seed r) i))
           (take k is)"
      "(\<exists>tiles. res = Inr tiles) \<longrightarrow> k = length is"
      by blast
    then show ?thesis
      by (intro exI[of _ "Suc k"]) (simp add: provider_calls_append)
  qed
qed

lemma after_lookup_simps:
  "provider_calls (trace (after_lookup env r uc st)) = provider_calls (trace st)"
  "cache (after_lookup env r uc st) = cache st"
  by (simp_all add: after_lookup_def provider_calls_append)

lemma generate_sfx_valid:
  assumes "1 \<le> req_duration r" and "req_duration r \<le> 300"
  shows "generate_sfx env r uc st =
           synthesize env r uc (generate_cache_key env r) (after_lookup env r uc st)"
  using assms
  by (simp add: generate_sfx_def get_cached_result_miss after_lookup_def Let_def
      min_duration_def max_duration_def)

lemma generate_sfx_invalid:
  assumes "req_duration r < 1 \<or> 300 < req_duration r"
  shows "\<exists>msg. generate_sfx env r uc st = (failure_result msg, st)"
  using assms by (auto simp: generate_sfx_def min_duration_def max_duration_def)

lemma synthesize_audio:
  "audio_data (fst (synthesize env r uc key st)) =
     (if \<lceil>req_duration r / max_duration_per_request\<rceil> = 0 then None
      else case fst (generate_tiles env r
                  (req_duration r / real_of_int \<lceil>req_duration r / max_duration_per_request\<rceil>) []
                  [0..<nat \<lceil>req_duration r / max_duration_per_request\<rceil>] st) of
             Inl e \<Rightarrow> None
           | Inr tiles \<Rightarrow>
               (case stitch_stage tiles (req_crossfade_duration r) (req_sample_rate r)
                       (req_loopable r) of
                  Inl e \<Rightarrow> None
                | Inr stitched \<Rightarrow>
                    (case save_audio env
                            (ensure_exact_duration stitched
                               (py_int (req_duration r * real_of_int (req_sample_rate r))))
                            (req_sample_rate r) (req_bit_depth r) of
                       Inl e \<Rightarrow> None
                     | Inr written \<Rightarrow> Some written)))"
  by (simp add: synthesize_def py_int_of_int Let_def failure_result_def
      split: prod.splits sum.splits)

lemma generate_sfx_audio:
  "audio_data (fst (generate_sfx env r uc st)) =
     (if req_duration r < min_duration \<or> req_duration r > max_duration then None
      else audio_data (fst (synthesize env r uc (generate_cache_key env r)
             (if uc then st\<lparr>trace := trace st @ [CacheRead (generate_cache_key env r)]\<rparr>
              else st))))"
  by (simp add: generate_sfx_def get_cached_result_miss failure_result_def Let_def)



lemma synthesize_outcome:
  "synthesize env r uc key st0 = (res, st') \<Longrightarrow>
     \<exists>gen st1. generate_tiles env r (req_duration r / real_of_int \<lceil>req_duration r / 22\<rceil>) []
        [0..<nat \<lceil>req_duration r / 22\<rceil>] st0 = (gen, st1) \<and>
       provider_calls (trace st') = provider_calls (trace st1) \<and>
       (success res \<longrightarrow> (\<exists>tiles. gen = Inr tiles) \<and> tiles_generated res = \<lceil>req_duration r / 22\<rceil>)"
  by (auto simp: synthesize_def failure_result_def py_int_of_int Let_def
      max_duration_per_request_def cache_result_def provider_calls_append
      split: if_splits prod.splits sum.splits option.splits)


section \<open>Claims\<close>

subsection \<open>C1: cache idempotence\<close>

text \<open>
  C1 states that two calls of \<open>generate_sfx\<close> with identical requests and
  \<^verbatim>\<open>use_cache=True\<close> invoke the provider exactly once, the second call returning the
  stored result. In the code the lookup never returns a stored result (lemma
  \<open>get_cached_result_miss\<close>): building it raises \<^verbatim>\<open>NameError\<close>, which the handler
  turns into \<^verbatim>\<open>None\<close>. The theorem runs the ten-second request twice against the stub
  surroundings, starting from an empty cache: the first call succeeds and stores its
  audio under the request's cache key, and after the second call the provider has been
  invoked twice.
\<close>

theorem second_identical_request_calls_provider_again:
  "success (fst (generate_sfx stub_env rain_request True empty_state)) \<and>
   audio_files (cache (snd (generate_sfx stub_env rain_request True empty_state)))
     (generate_cache_key stub_env rain_request) = Some (replicate 480000 0) \<and>
   provider_calls (trace (snd (generate_sfx stub_env rain_request True
     (snd (generate_sfx stub_env rain_request True empty_state))))) =
     [(''rain on leaves'', 10, Some 42), (''rain on leaves'', 10, Some 42)]"
  by (simp add: engine_defs stub_defs)

subsection \<open>C2: pipeline ordering\<close>




subsection \<open>C3: validation\<close>

text \<open>
  C3, as amended. A request whose duration is below 1.0 or above 300.0 seconds gets a
  failure result with an error message, and the state is returned unchanged: no cache
  lookup, no provider call and no cache write happen. (The engine does not inspect the
  prompt.)
\<close>

theorem out_of_range_duration_rejected:
  "req_duration r < 1 \<or> 300 < req_duration r \<Longrightarrow>
     \<not> success (fst (generate_sfx env r uc st)) \<and>
     error_message (fst (generate_sfx env r uc st)) \<noteq> None \<and>
     snd (generate_sfx env r uc st) = st"
  using generate_sfx_invalid [of r env uc st] by (auto simp: failure_result_def)

theorem out_of_range_duration_rejected_witness:
  "(req_duration (rain_request\<lparr>req_duration := 9 / 10\<rparr>) < 1 \<and>
    \<not> success (fst (generate_sfx stub_env (rain_request\<lparr>req_duration := 9 / 10\<rparr>) True
                   empty_state)) \<and>
    snd (generate_sfx stub_env (rain_request\<lparr>req_duration := 9 / 10\<rparr>) True empty_state)
      = empty_state) \<and>
   (300 < req_duration (rain_request\<lparr>req_duration := 3001 / 10\<rparr>) \<and>
    \<not> success (fst (generate_sfx stub_env (rain_request\<lparr>req_duration := 3001 / 10\<rparr>) True
                   empty_state)) \<and>
    snd (generate_sfx stub_env (rain_request\<lparr>req_duration := 3001 / 10\<rparr>) True empty_state)
      = empty_state)"
  using out_of_range_duration_rejected
      [of "rain_request\<lparr>req_duration := 9 / 10\<rparr>" stub_env True empty_state]
    out_of_range_duration_rejected
      [of "rain_request\<lparr>req_duration := 3001 / 10\<rparr>" stub_env True empty_state]
  by (simp add: rain_request_def)

text \<open>
  C3 as stated fails for the empty prompt: with a valid duration the request is looked up
  in the cache, sent to the provider, synthesized and cached.
\<close>

theorem empty_prompt_counterexample:
  "req_prompt empty_prompt_request = [] \<and>
   success (fst (generate_sfx stub_env empty_prompt_request True empty_state)) \<and>
   trace (snd (generate_sfx stub_env empty_prompt_request True empty_state)) =
     [CacheRead ''sfx_0cc175b9c0f1b6a8.wav'', ProviderCall [] 10 (Some 42),
      TempFileWrite ''/tmp/tmp0.wav'', CacheWrite ''sfx_0cc175b9c0f1b6a8.wav'']"
  by (simp add: engine_defs stub_defs)

subsection \<open>C4: tile planning\<close>

text \<open>
  C4. For a valid duration \<open>d\<close> the engine plans \<open>\<lceil>d / 22\<rceil>\<close> tiles of \<open>d / \<lceil>d / 22\<rceil>\<close>
  seconds each: the provider calls of a run are those of tiles \<open>0, \<dots>, k - 1\<close> of that
  plan, each with the prompt, the equal share of the duration and the seed
  \<open>requestSeed + i\<close> (no seed when the request has none), and a successful run made all
  \<open>\<lceil>d / 22\<rceil>\<close> of them and reports that count. A duration of at most 22 seconds gives
  one tile; 50 seconds give three tiles of about 16.667 seconds.
\<close>

theorem tile_plan:
  assumes "1 \<le> req_duration r" and "req_duration r \<le> 300"
    and "generate_sfx env r uc st = (res, st')"
  shows "(\<exists>k\<le>nat \<lceil>req_duration r / 22\<rceil>.
            provider_calls (trace st') = provider_calls (trace st) @
              map (\<lambda>i. (req_prompt r, req_duration r / real_of_int \<lceil>req_duration r / 22\<rceil>,
                         case req_seed r of None \<Rightarrow> None | Some s \<Rightarrow> Some (s + int i)))
                [0..<k] \<and>
            (success res \<longrightarrow>
               k = nat \<lceil>req_duration r / 22\<rceil> \<and> tiles_generated res = \<lceil>req_duration r / 22\<rceil>)) \<and>
         (req_duration r \<le> 22 \<longrightarrow> \<lceil>req_duration r / 22\<rceil> = 1) \<and>
         (req_duration r = 50 \<longrightarrow>
            \<lceil>req_duration r / 22\<rceil> = 3 \<and>
            \<bar>req_duration r / real_of_int \<lceil>req_duration r / 22\<rceil> - 16667 / 1000\<bar> < 1 / 1000)"
proof -
  let ?n = "\<lceil>req_duration r / 22\<rceil>"
  let ?td = "req_duration r / real_of_int ?n"
  have m: "min ?td max_duration_per_request = ?td"
    using tile_duration_le[OF assms(1)] by (simp add: max_duration_per_request_def)
  from assms have "synthesize env r uc (generate_cache_key env r) (after_lookup env r uc st) = (res, st')"
    by (simp add: generate_sfx_valid)
  from synthesize_outcome[OF this] obtain gen st1 where g:
    "generate_tiles env r ?td [] [0..<nat ?n] (after_lookup env r uc st) = (gen, st1)"
    "provider_calls (trace st') = provider_calls (trace st1)"
    "success res \<longrightarrow> (\<exists>tiles. gen = Inr tiles) \<and> tiles_generated res = ?n"
    by blast
  from generate_tiles_prefix[OF g(1)] obtain k where k0: "k \<le> length [0..<nat ?n]"
    "provider_calls (trace st1) = provider_calls (trace (after_lookup env r uc st)) @
       map (\<lambda>i. (req_prompt r, min ?td max_duration_per_request, tile_seed (req_seed r) i))
         (take k [0..<nat ?n])"
    "(\<exists>tiles. gen = Inr tiles) \<longrightarrow> k = length [0..<nat ?n]"
    by blast
  from k0(1) have kn: "k \<le> nat ?n" by simp
  then have tk: "take k [0..<nat ?n] = [0..<k]" by simp
  have k: "provider_calls (trace st1) = provider_calls (trace st) @
       map (\<lambda>i. (req_prompt r, ?td, tile_seed (req_seed r) i)) [0..<k]"
    "(\<exists>tiles. gen = Inr tiles) \<longrightarrow> k = nat ?n"
    using k0(2,3) by (simp_all only: m tk after_lookup_simps length_upt minus_nat.diff_0)
  have one: "req_duration r \<le> 22 \<longrightarrow> ?n = 1"
    using assms(1) by (auto simp: ceiling_eq_iff)
  have fifty: "req_duration r = 50 \<longrightarrow> ?n = 3 \<and> \<bar>?td - 16667 / 1000\<bar> < 1 / 1000"
    by (auto simp: ceiling_eq_iff)
  have "\<exists>k\<le>nat ?n.
            provider_calls (trace st') = provider_calls (trace st) @
              map (\<lambda>i. (req_prompt r, ?td,
                         case req_seed r of None \<Rightarrow> None | Some s \<Rightarrow> Some (s + int i)))
                [0..<k] \<and>
            (success res \<longrightarrow> k = nat ?n \<and> tiles_generated res = ?n)"
    using k kn g(2,3) by (intro exI[of _ k]) (simp add: tile_seed_def)
  with one fifty show ?thesis by blast
qed

theorem tile_plan_witness:
  "1 \<le> req_duration wind_request \<and> req_duration wind_request \<le> 300 \<and>
   success (fst (generate_sfx stub_env wind_request False empty_state)) \<and>
   tiles_generated (fst (generate_sfx stub_env wind_request False empty_state)) = 3 \<and>
   provider_calls (trace (snd (generate_sfx stub_env wind_request False empty_state))) =
     [(''wind in pines'', 50 / 3, Some 42), (''wind in pines'', 50 / 3, Some 43),
      (''wind in pines'', 50 / 3, Some 44)]"
proof -
  let ?run = "generate_sfx stub_env wind_request False empty_state"
  have d: "req_duration wind_request = 50"
    by (simp add: stub_defs)
  have h1: "1 \<le> req_duration wind_request" and h2: "req_duration wind_request \<le> 300"
    by (simp_all add: d)
  have ok: "success (fst ?run)"
    by (simp add: engine_defs stub_defs audio_defs upt_rec)
  from tile_plan [OF h1 h2 surjective_pairing, of stub_env False empty_state]
  obtain k where k: "provider_calls (trace (snd ?run)) = provider_calls (trace empty_state) @
       map (\<lambda>i. (req_prompt wind_request,
                  req_duration wind_request / real_of_int \<lceil>req_duration wind_request / 22\<rceil>,
                  case req_seed wind_request of None \<Rightarrow> None | Some s \<Rightarrow> Some (s + int i)))
         [0..<k]"
    "success (fst ?run) \<longrightarrow> k = nat \<lceil>req_duration wind_request / 22\<rceil> \<and>
       tiles_generated (fst ?run) = \<lceil>req_duration wind_request / 22\<rceil>"
    by blast
  have n: "\<lceil>req_duration wind_request / 22\<rceil> = 3"
    by (simp add: d)
  from k(2) ok n have k3: "k = 3" and t3: "tiles_generated (fst ?run) = 3" by simp_all
  have "provider_calls (trace (snd ?run)) =
     [(''wind in pines'', 50 / 3, Some 42), (''wind in pines'', 50 / 3, Some 43),
      (''wind in pines'', 50 / 3, Some 44)]"
    unfolding k(1) k3 n by (simp add: stub_defs upt_rec)
  with h1 h2 ok t3 show ?thesis by simp
qed


subsection \<open>C5: duration exactness\<close>




subsection \<open>C6: failure semantics\<close>



subsection \<open>C7: determinism\<close>

text \<open>
  C7. For a request with an explicit seed, two invocations against a cold cache, with the
  same deterministic provider, audio library and sound-file writer, return the same audio
  bytes, whatever the clock readings, the name of the temporary file, the rest of the
  cache contents, the earlier trace and the writability of the cache directory are.
\<close>

theorem deterministic_audio:
  assumes "req_seed r = Some s"
    and "provider e1 = provider e2" and "lib_load e1 = lib_load e2"
    and "lib_resample e1 = lib_resample e2" and "lib_normalize e1 = lib_normalize e2"
    and "sf_write e1 = sf_write e2"
    and "audio_files (cache s1) (generate_cache_key e1 r) = None"
    and "audio_files (cache s2) (generate_cache_key e2 r) = None"
  shows "audio_data (fst (generate_sfx e1 r uc s1)) = audio_data (fst (generate_sfx e2 r uc s2))"
proof -
  have sv: "\<And>a rate depth. save_audio e1 a rate depth = save_audio e2 a rate depth"
    using assms(6) by (simp add: save_audio_def)
  have gt: "fst (generate_tiles e1 r td [] is t1) = fst (generate_tiles e2 r td [] is t2)"
    for td "is" t1 t2
    using generate_tiles_same_audio[OF assms(2-5)] by blast
  have sy: "audio_data (fst (synthesize e1 r uc k1 t1)) = audio_data (fst (synthesize e2 r uc k2 t2))"
    for k1 k2 t1 t2
    by (simp only: synthesize_audio sv gt[of _ _ t1 t2])
  show ?thesis
    by (simp only: generate_sfx_audio sy[of _ _ "generate_cache_key e2 r"
          "if uc then s2\<lparr>trace := trace s2 @ [CacheRead (generate_cache_key e2 r)]\<rparr> else s2"])
qed

theorem deterministic_audio_witness:
  "req_seed rain_request = Some 42 \<and>
   now_start stub_env \<noteq> now_start later_env \<and>
   temp_file_name stub_env \<noteq> temp_file_name later_env \<and>
   audio_files (cache empty_state) (generate_cache_key stub_env rain_request) = None \<and>
   audio_files (cache empty_state) (generate_cache_key later_env rain_request) = None \<and>
   audio_data (fst (generate_sfx stub_env rain_request True empty_state)) =
     audio_data (fst (generate_sfx later_env rain_request True empty_state))"
proof -
  have h1: "req_seed rain_request = Some 42"
    by (simp add: stub_defs)
  have h2: "provider stub_env = provider later_env" and h3: "lib_load stub_env = lib_load later_env"
    and h4: "lib_resample stub_env = lib_resample later_env"
    and h5: "lib_normalize stub_env = lib_normalize later_env"
    and h6: "sf_write stub_env = sf_write later_env"
    by (simp_all add: stub_defs)
  have h7: "audio_files (cache empty_state) (generate_cache_key stub_env rain_request) = None"
    and h8: "audio_files (cache empty_state) (generate_cache_key later_env rain_request) = None"
    by (simp_all add: empty_state_def)
  have diff: "now_start stub_env \<noteq> now_start later_env"
    "temp_file_name stub_env \<noteq> temp_file_name later_env"
    by (simp_all add: stub_defs)
  from deterministic_audio [OF h1 h2 h3 h4 h5 h6 h7 h8, of True] h1 h7 h8 diff
  show ?thesis by blast
qed


subsection \<open>C8: short-segment crossfade fallback\<close>

text \<open>
  C8, as amended. With \<open>crossfadeSamples = int(crossfadeDuration * sampleRate)\<close>, the
  product truncated towards zero (not rounded), whenever either of the two segments has
  fewer samples than \<open>crossfadeSamples\<close> the crossfade step returns their plain
  concatenation, with no fade applied and without raising an error.
\<close>

theorem short_segments_concatenated:
  "int (length audio1) < py_int (cd * real_of_int sr) \<or>
   int (length audio2) < py_int (cd * real_of_int sr) \<Longrightarrow>
     create_crossfade audio1 audio2 cd sr = Inr (audio1 @ audio2)"
  by (simp add: create_crossfade_def)

theorem short_segments_concatenated_witness:
  "int (length [1, 1 :: real]) < py_int (1 * real_of_int 48000) \<and>
   create_crossfade [1, 1] [1 / 2, 1 / 2] 1 48000 = Inr [1, 1, 1 / 2, 1 / 2]"
  using short_segments_concatenated [of "[1, 1]" 1 48000 "[1 / 2, 1 / 2]"]
  by (simp add: py_int_def)

text \<open>
  C8 as stated fails where rounding and truncation differ: for a crossfade of 0.25
  seconds at 7 samples per second the product is 1.75, which rounds to 2, so two
  one-sample segments are both shorter than the rounded count; the code computes a count
  of 1, takes the crossfade path and returns one blended sample instead of the
  concatenation.
\<close>

theorem short_segments_rounding_counterexample:
  "int (length [3 :: real]) < round (1 / 4 * real_of_int 7) \<and>
   create_crossfade [3] [5] (1 / 4) 7 = Inr [3] \<and>
   create_crossfade [3] [5] (1 / 4) 7 \<noteq> Inr ([3] @ [5])"
  by (simp add: audio_defs py_int_def round_def)

subsection \<open>C9: loop wrapper construction\<close>




subsection \<open>C10: stitcher edge cases\<close>

text \<open>
  C10. Stitching an empty tile sequence returns an empty buffer, and stitching a sequence
  of exactly one tile returns that tile unchanged, without an error, for every crossfade
  duration, sample rate and loopable flag.
\<close>

theorem stitch_edge_cases:
  "stitch_tiles [] cd sr loopable = Inr [] \<and> stitch_tiles [tile] cd sr loopable = Inr tile"
  by (simp add: stitch_tiles_def)

theorem stitch_edge_cases_witness:
  "stitch_tiles [] (1 / 2) 48000 True = Inr [] \<and>
   stitch_tiles [[1, - 1 / 2, 1 / 4, 0]] (1 / 2) 48000 True = Inr [1, - 1 / 2, 1 / 4, 0]"
  using stitch_edge_cases [of "1 / 2" 48000 True "[1, - 1 / 2, 1 / 4, 0]"]
  by simp


end
